theory Spec2Isabelle
  imports Main "HOL-Library.AList"
begin

section \<open>Sampling engine (core/monitor.py)\<close>

text \<open>
  The monitoring functions poll an operating-system data provider (psutil) in a blocking
  loop. The provider is modelled as a finite script: one entry per loop iteration, holding
  what each provider call of that iteration returns or raises, the outcome of the
  wall-clock comparison of the iteration, and whether Ctrl-C arrives during the sleep.
  Python integers are unbounded, so cumulative byte counters are \<open>int\<close>. The instantaneous
  floating-point readings (CPU and memory percentages) are displayed unchanged by the
  source and are left out of the model.
\<close>

record io_counters =
  read_bytes :: int
  write_bytes :: int

record net_counters =
  bytes_sent :: int
  bytes_recv :: int

text \<open>What a provider call on a process returns or raises.\<close>

datatype 'a reading = Got 'a | NoSuchProcess | AccessDenied | OtherError string

text \<open>
  Console output and log records of the monitoring functions. \<open>Display\<close> and
  \<open>SysDisplay\<close> are the blocks of lines a tick prints. For the multi-process loop,
  \<open>MultiHeader\<close> is the heading of an iteration, \<open>Probe pid\<close> a read of the target
  (\<open>is_running()\<close> and, for a running target, its statistics), \<open>MultiDisplay\<close> the line
  of a sampled target (pid, threads), \<open>Gone\<close> the warning that a target has terminated
  and \<open>Lost\<close> the warning that access to it was lost.
\<close>

record sample =
  iteration :: nat
  num_threads :: int
  io_read :: int
  io_write :: int
  net_sent :: int
  net_recv :: int

record sys_sample =
  sys_iteration :: nat
  sys_net_sent :: int
  sys_net_recv :: int
  disk_read :: int
  disk_write :: int

datatype mon_event =
    Display sample
  | SysDisplay sys_sample
  | Probe int
  | MultiHeader nat
  | MultiDisplay int int
  | Gone int
  | Lost int
  | Warning string
  | Error string
  | Info string
  | Success string
  | LogError string

text \<open>
  The message of the AttributeError that Python raises for \<open>None.bytes_sent\<close> and the
  like: a previous reading exists, the current provider call returned \<open>None\<close>.
\<close>

definition none_attribute :: "string \<Rightarrow> string" where
  "none_attribute a = [CHR 0x27] @ ''NoneType'' @ [CHR 0x27] @ '' object has no attribute ''
     @ [CHR 0x27] @ a @ [CHR 0x27]"

subsection \<open>Deltas of cumulative counters\<close>

text \<open>
  The source writes each delta as \<open>curr.field - prev.field if prev else 0\<close>. The test on
  \<open>prev\<close> comes first: with no previous reading the delta is 0 and \<open>curr\<close> is not
  touched; with a previous reading and \<open>curr = None\<close> the attribute access raises.
  \<open>net_deltas\<close> is the pair (sent, received), \<open>io_deltas\<close> the pair (read, written).
\<close>

fun net_deltas :: "net_counters option \<Rightarrow> net_counters option \<Rightarrow> string + (int \<times> int)" where
  "net_deltas None cur = Inr (0, 0)"
| "net_deltas (Some prv) None = Inl (none_attribute ''bytes_sent'')"
| "net_deltas (Some prv) (Some cur) =
     Inr (bytes_sent cur - bytes_sent prv, bytes_recv cur - bytes_recv prv)"

fun io_deltas :: "io_counters option \<Rightarrow> io_counters option \<Rightarrow> string + (int \<times> int)" where
  "io_deltas None cur = Inr (0, 0)"
| "io_deltas (Some prv) None = Inl (none_attribute ''read_bytes'')"
| "io_deltas (Some prv) (Some cur) =
     Inr (read_bytes cur - read_bytes prv, write_bytes cur - write_bytes prv)"

subsection \<open>watch_process\<close>

text \<open>
  State carried from one iteration to the next: the two previous raw cumulative readings
  and the iteration counter. \<open>prev_io\<close> and \<open>prev_net\<close> are tested for truth by the
  source; a counters tuple is always true, \<open>None\<close> is false.
\<close>

record wp_state =
  prev_io :: "io_counters option"
  prev_net :: "net_counters option"
  wp_iteration :: nat

record wp_tick =
  proc_stats :: "(int \<times> io_counters) reading"
  net_now :: "net_counters option"
  still_running :: bool
  duration_reached :: bool
  interrupted :: bool

text \<open>
  One pass through the body of \<open>while True\<close> in \<open>watch_process\<close>. The result is the
  console output of the pass and the state for the next pass, or \<open>None\<close> when the loop is
  left (\<open>break\<close>, or KeyboardInterrupt during the sleep). The process readings are the
  thread count and the I/O counters; an exception of the process calls or of the delta
  computation is handled by the \<open>except\<close> clauses inside the loop, each of which breaks.
  The line that reports the end of the duration is kept without the number of seconds.
\<close>

definition watch_process_tick :: "wp_state \<Rightarrow> wp_tick \<Rightarrow> mon_event list \<times> wp_state option" where
  "watch_process_tick s t =
    (case proc_stats t of
       NoSuchProcess \<Rightarrow> ([Warning ''Process has terminated''], None)
     | AccessDenied \<Rightarrow> ([Error ''Access denied to process stats''], None)
     | OtherError e \<Rightarrow> ([Error (''Error getting process stats: '' @ e)], None)
     | Got (threads, io) \<Rightarrow>
        (case io_deltas (prev_io s) (Some io) of
           Inl e \<Rightarrow> ([Error (''Error getting process stats: '' @ e)], None)
         | Inr (ioread, iowrite) \<Rightarrow>
            (case net_deltas (prev_net s) (net_now t) of
               Inl e \<Rightarrow> ([Error (''Error getting process stats: '' @ e)], None)
             | Inr (sent, recv) \<Rightarrow>
                (let shown = [Display \<lparr>iteration = wp_iteration s + 1, num_threads = threads,
                                io_read = ioread, io_write = iowrite,
                                net_sent = sent, net_recv = recv\<rparr>]
                 in if \<not> still_running t then (shown @ [Warning ''Process has terminated''], None)
                    else if duration_reached t then (shown @ [Info ''Monitoring completed''], None)
                    else if interrupted t then (shown @ [Info ''Monitoring stopped by user''], None)
                    else (shown, Some \<lparr>prev_io = Some io, prev_net = net_now t,
                                        wp_iteration = wp_iteration s + 1\<rparr>)))))"

text \<open>
  The loop, run against a script. The second component tells whether the loop was left
  (\<open>True\<close>) or the script ended while the loop was still running (\<open>False\<close>).
\<close>

fun watch_process_loop :: "wp_state \<Rightarrow> wp_tick list \<Rightarrow> mon_event list \<times> bool" where
  "watch_process_loop s [] = ([], False)"
| "watch_process_loop s (t # ts) =
     (case watch_process_tick s t of
        (evs, None) \<Rightarrow> (evs, True)
      | (evs, Some s') \<Rightarrow> (case watch_process_loop s' ts of (evs', fin) \<Rightarrow> (evs @ evs', fin)))"

subsection \<open>monitor_system\<close>

record ms_state =
  ms_prev_net :: "net_counters option"
  ms_prev_disk :: "io_counters option"
  ms_iteration :: nat

record ms_tick =
  ms_within_duration :: bool
  ms_net :: "net_counters option"
  ms_disk :: "io_counters option"
  ms_interrupted :: bool

text \<open>
  One evaluation of the loop guard and, when it holds, one pass through the body of the
  loop of \<open>monitor_system\<close>. An exception is not caught inside the loop: it reaches the
  handler of the whole function, which prints and logs it.
\<close>

definition monitor_system_tick :: "ms_state \<Rightarrow> ms_tick \<Rightarrow> mon_event list \<times> ms_state option" where
  "monitor_system_tick s t =
    (if \<not> ms_within_duration t then ([Success ''System monitoring completed''], None)
     else
      (case net_deltas (ms_prev_net s) (ms_net t) of
         Inl e \<Rightarrow> ([Error (''Error monitoring system: '' @ e),
                     LogError (''monitor_system error: '' @ e)], None)
       | Inr (sent, recv) \<Rightarrow>
          (case io_deltas (ms_prev_disk s) (ms_disk t) of
             Inl e \<Rightarrow> ([Error (''Error monitoring system: '' @ e),
                         LogError (''monitor_system error: '' @ e)], None)
           | Inr (dread, dwrite) \<Rightarrow>
              (let shown = [SysDisplay \<lparr>sys_iteration = ms_iteration s + 1, sys_net_sent = sent,
                              sys_net_recv = recv, disk_read = dread, disk_write = dwrite\<rparr>]
               in if ms_interrupted t
                  then (shown @ [Info ''System monitoring stopped by user'',
                                 Success ''System monitoring completed''], None)
                  else (shown, Some \<lparr>ms_prev_net = ms_net t, ms_prev_disk = ms_disk t,
                                      ms_iteration = ms_iteration s + 1\<rparr>)))))"

fun monitor_system_loop :: "ms_state \<Rightarrow> ms_tick list \<Rightarrow> mon_event list \<times> bool" where
  "monitor_system_loop s [] = ([], False)"
| "monitor_system_loop s (t # ts) =
     (case monitor_system_tick s t of
        (evs, None) \<Rightarrow> (evs, True)
      | (evs, Some s') \<Rightarrow> (case monitor_system_loop s' ts of (evs', fin) \<Rightarrow> (evs @ evs', fin)))"

subsection \<open>watch_multiple_processes\<close>


datatype probe =
    Running int
  | NotRunning
  | Raises_NoSuchProcess
  | Raises_AccessDenied
  | Raises_other string











section \<open>Service backends (services/*.py)\<close>

subsection \<open>The world outside: subprocesses, files, platform identity\<close>

text \<open>
  What \<open>subprocess.run(argv, capture_output=True, text=True, timeout=...)\<close> does: it
  returns a completed process (return code, stdout, stderr), or raises
  \<open>TimeoutExpired\<close>, \<open>FileNotFoundError\<close> or some other exception; the string is the
  text of the exception, as \<open>{e}\<close> formats it. Every backend function catches
  \<open>Exception\<close> at its boundary, so each of its outcomes is a value of the model.
\<close>

datatype exn = TimeoutExpired | FileNotFoundError string | OtherException string

datatype run_outcome = Completed int string string | Raised exn

datatype backend = Systemd | Windows | Launchd

text \<open>
  The environment a call runs in. \<open>os_uname\<close> is \<open>os.uname().sysname\<close>, and \<open>None\<close>
  on a platform whose \<open>os\<close> module has no \<open>uname\<close> (Windows), where the attribute access
  raises AttributeError. \<open>import_error\<close> is the text of the exception when the import of
  a backend module raises. The privilege check \<open>is_admin()\<close> is consumed as a yes/no
  answer.
\<close>

record world =
  platform_system :: string
  os_name :: string
  os_uname :: "string option"
  import_error :: "backend \<Rightarrow> string option"
  subprocess_run :: "string list \<Rightarrow> run_outcome"
  path_exists :: "string \<Rightarrow> bool"
  is_admin :: bool

text \<open>
  Values of the service dictionaries, and the dictionaries themselves in insertion order.
\<close>

datatype pyval = PyStr string | PyInt int | PyNone

type_synonym service = "(string \<times> pyval) list"

record table_row =
  Name :: pyval
  Display_Name :: pyval
  State :: pyval
  Type :: pyval

text \<open>
  The observable effects of a call, in order: a subprocess started, a message on the
  console (\<open>print_success\<close>, \<open>print_error\<close>, \<open>print_warning\<close>, \<open>print_table\<close> of
  core/utils.py), a record handed to the logger of \<open>setup_logging()\<close> (the logging sink),
  a backend object constructed, an action method of a backend called by
  \<open>manage_service\<close> (backend, action, service name).
\<close>

datatype event =
    Run "string list"
  | Print_success string
  | Print_error string
  | Print_warning string
  | Print_table "table_row list"
  | Log_info string
  | Log_error string
  | Instantiate backend
  | Invoke backend string string

fun is_log :: "event \<Rightarrow> bool" where
  "is_log (Log_info m) = True"
| "is_log (Log_error m) = True"
| "is_log e = False"

fun is_run :: "event \<Rightarrow> bool" where
  "is_run (Run argv) = True"
| "is_run e = False"

fun is_console_error :: "event \<Rightarrow> bool" where
  "is_console_error (Print_error m) = True"
| "is_console_error e = False"

fun is_instantiate :: "event \<Rightarrow> bool" where
  "is_instantiate (Instantiate b) = True"
| "is_instantiate e = False"

fun is_invoke :: "event \<Rightarrow> bool" where
  "is_invoke (Invoke b a n) = True"
| "is_invoke e = False"

definition log_records :: "event list \<Rightarrow> event list" where
  "log_records evs = filter is_log evs"

subsection \<open>Python string operations\<close>

text \<open>
  Strings are lists of code points below 256. \<open>is_space\<close> is Python's \<open>str.isspace\<close> on
  that range; \<open>py_strip\<close> is \<open>s.strip()\<close>, \<open>split_on c\<close> is \<open>s.split(c)\<close> for a
  one-character separator, \<open>py_split\<close> is \<open>s.split()\<close>, \<open>startswith\<close> and \<open>py_join\<close>
  are \<open>s.startswith(p)\<close> and \<open>sep.join(xs)\<close>, \<open>after_first c\<close> is \<open>s.split(c, 1)[1]\<close>
  for a string that contains \<open>c\<close>, \<open>py_lower\<close> is \<open>s.lower()\<close>, \<open>py_bool\<close> is how an
  f-string formats a boolean.
\<close>

definition is_space :: "char \<Rightarrow> bool" where
  "is_space c = (let n = (of_char c :: nat)
                 in (9 \<le> n \<and> n \<le> 13) \<or> (28 \<le> n \<and> n \<le> 32) \<or> n = 133 \<or> n = 160)"

definition py_strip :: "string \<Rightarrow> string" where
  "py_strip s = rev (dropWhile is_space (rev (dropWhile is_space s)))"

fun split_on :: "char \<Rightarrow> string \<Rightarrow> string list" where
  "split_on c [] = [[]]"
| "split_on c (x # xs) =
     (if x = c then [] # split_on c xs
      else (case split_on c xs of [] \<Rightarrow> [[x]] | w # ws \<Rightarrow> (x # w) # ws))"

fun split_ws :: "string \<Rightarrow> string \<Rightarrow> string list" where
  "split_ws w [] = (if w = [] then [] else [w])"
| "split_ws w (c # cs) =
     (if is_space c then (if w = [] then split_ws [] cs else w # split_ws [] cs)
      else split_ws (w @ [c]) cs)"

definition py_split :: "string \<Rightarrow> string list" where
  "py_split s = split_ws [] s"

definition startswith :: "string \<Rightarrow> string \<Rightarrow> bool" where
  "startswith s p = (take (length p) s = p)"

fun py_join :: "string \<Rightarrow> string list \<Rightarrow> string" where
  "py_join sep [] = []"
| "py_join sep [x] = x"
| "py_join sep (x # y # ys) = x @ sep @ py_join sep (y # ys)"

definition after_first :: "char \<Rightarrow> string \<Rightarrow> string" where
  "after_first c s = drop 1 (dropWhile (\<lambda>x. x \<noteq> c) s)"

definition lower_char :: "char \<Rightarrow> char" where
  "lower_char c = (let n = (of_char c :: nat)
                   in if (65 \<le> n \<and> n \<le> 90) \<or> (192 \<le> n \<and> n \<le> 222 \<and> n \<noteq> 215)
                      then char_of (n + 32) else c)"

definition py_lower :: "string \<Rightarrow> string" where
  "py_lower s = map lower_char s"

definition py_bool :: "bool \<Rightarrow> string" where
  "py_bool b = (if b then ''True'' else ''False'')"

text \<open>
  \<open>py_int\<close> is \<open>int(s)\<close> on such strings: surrounding whitespace, an optional sign,
  decimal digits with single underscores between digits; \<open>None\<close> stands for ValueError.
\<close>

definition is_digit :: "char \<Rightarrow> bool" where
  "is_digit c = (let n = (of_char c :: nat) in 48 \<le> n \<and> n \<le> 57)"

fun int_digits :: "bool \<Rightarrow> int \<Rightarrow> string \<Rightarrow> int option" where
  "int_digits d acc [] = (if d then Some acc else None)"
| "int_digits d acc (c # cs) =
     (if is_digit c then int_digits True (10 * acc + (int (of_char c) - 48)) cs
      else if c = CHR ''_'' \<and> d \<and> cs \<noteq> [] then int_digits False acc cs
      else None)"

definition py_int :: "string \<Rightarrow> int option" where
  "py_int s = (case py_strip s of
       [] \<Rightarrow> None
     | c # cs \<Rightarrow> if c = CHR ''-'' then map_option uminus (int_digits False 0 cs)
                else if c = CHR ''+'' then int_digits False 0 cs
                else int_digits False 0 (c # cs))"

subsection \<open>Mutating actions\<close>

datatype action = Start | Stop | Restart | Enable | Disable

fun verb :: "action \<Rightarrow> string" where
  "verb Start = ''start''"
| "verb Stop = ''stop''"
| "verb Restart = ''restart''"
| "verb Enable = ''enable''"
| "verb Disable = ''disable''"

fun past :: "action \<Rightarrow> string" where
  "past Start = ''Started''"
| "past Stop = ''Stopped''"
| "past Restart = ''Restarted''"
| "past Enable = ''Enabled''"
| "past Disable = ''Disabled''"

fun gerund :: "action \<Rightarrow> string" where
  "gerund Start = ''starting''"
| "gerund Stop = ''stopping''"
| "gerund Restart = ''restarting''"
| "gerund Enable = ''enabling''"
| "gerund Disable = ''disabling''"

fun backend_name :: "backend \<Rightarrow> string" where
  "backend_name Systemd = ''systemd''"
| "backend_name Windows = ''windows''"
| "backend_name Launchd = ''launchd''"

text \<open>
  The fifteen action methods share one shape, which differs only in the command line and
  in the words of the messages. \<open>report\<close> is the part after the (last) subprocess has
  completed: the success flag, the console message, the INFO record, the return value.
  \<open>failed_run\<close> is the two \<open>except\<close> clauses: a timeout prints and returns \<open>False\<close>;
  any other exception prints, writes an ERROR record and returns \<open>False\<close>.
\<close>

definition report :: "backend \<Rightarrow> action \<Rightarrow> string \<Rightarrow> int \<Rightarrow> string \<Rightarrow> bool \<times> event list" where
  "report b a name returncode stderr =
    (let success = (returncode = 0)
     in (success,
         [if success then Print_success (past a @ '' service '' @ name)
          else Print_error (''Failed to '' @ verb a @ '' service '' @ name @ '': '' @ stderr),
          Log_info (backend_name b @ '' '' @ verb a @ ''_service: '' @ name
                    @ '' success='' @ py_bool success)]))"

definition failed_run :: "backend \<Rightarrow> action \<Rightarrow> string \<Rightarrow> exn \<Rightarrow> bool \<times> event list" where
  "failed_run b a name x =
    (case x of
       TimeoutExpired \<Rightarrow> (False, [Print_error (''Timeout '' @ gerund a @ '' service '' @ name)])
     | FileNotFoundError e \<Rightarrow>
         (False, [Print_error (''Error '' @ gerund a @ '' service: '' @ e),
                  Log_error (backend_name b @ '' '' @ verb a @ ''_service error: '' @ e)])
     | OtherException e \<Rightarrow>
         (False, [Print_error (''Error '' @ gerund a @ '' service: '' @ e),
                  Log_error (backend_name b @ '' '' @ verb a @ ''_service error: '' @ e)]))"

definition service_action :: "world \<Rightarrow> backend \<Rightarrow> action \<Rightarrow> string list \<Rightarrow> string \<Rightarrow> bool \<times> event list" where
  "service_action w b a argv name =
    (case subprocess_run w argv of
       Completed returncode out err \<Rightarrow>
         (case report b a name returncode err of (success, evs) \<Rightarrow> (success, Run argv # evs))
     | Raised x \<Rightarrow> (case failed_run b a name x of (success, evs) \<Rightarrow> (success, Run argv # evs)))"

text \<open>services/systemd_backend.py\<close>

definition systemd_start_service :: "world \<Rightarrow> string \<Rightarrow> bool \<times> event list" where
  "systemd_start_service w service_name =
     service_action w Systemd Start [''sudo'', ''systemctl'', ''start'', service_name] service_name"

definition systemd_stop_service :: "world \<Rightarrow> string \<Rightarrow> bool \<times> event list" where
  "systemd_stop_service w service_name =
     service_action w Systemd Stop [''sudo'', ''systemctl'', ''stop'', service_name] service_name"

definition systemd_restart_service :: "world \<Rightarrow> string \<Rightarrow> bool \<times> event list" where
  "systemd_restart_service w service_name =
     service_action w Systemd Restart [''sudo'', ''systemctl'', ''restart'', service_name] service_name"

definition systemd_enable_service :: "world \<Rightarrow> string \<Rightarrow> bool \<times> event list" where
  "systemd_enable_service w service_name =
     service_action w Systemd Enable [''sudo'', ''systemctl'', ''enable'', service_name] service_name"

definition systemd_disable_service :: "world \<Rightarrow> string \<Rightarrow> bool \<times> event list" where
  "systemd_disable_service w service_name =
     service_action w Systemd Disable [''sudo'', ''systemctl'', ''disable'', service_name] service_name"

text \<open>services/windows_backend.py\<close>

definition windows_start_service :: "world \<Rightarrow> string \<Rightarrow> bool \<times> event list" where
  "windows_start_service w service_name =
     service_action w Windows Start [''sc.exe'', ''start'', service_name] service_name"

definition windows_stop_service :: "world \<Rightarrow> string \<Rightarrow> bool \<times> event list" where
  "windows_stop_service w service_name =
     service_action w Windows Stop [''sc.exe'', ''stop'', service_name] service_name"

text \<open>
  Restart on Windows stops, then starts. A stop that exits non-zero ends the call: one
  console error, \<open>False\<close>, and no start.
\<close>

definition windows_restart_service :: "world \<Rightarrow> string \<Rightarrow> bool \<times> event list" where
  "windows_restart_service w service_name =
    (let stop = [''sc.exe'', ''stop'', service_name]
     in case subprocess_run w stop of
          Completed returncode out err \<Rightarrow>
            (if returncode \<noteq> 0
             then (False, [Run stop,
                           Print_error (''Failed to stop service '' @ service_name @ '' for restart'')])
             else (case service_action w Windows Restart [''sc.exe'', ''start'', service_name] service_name
                   of (success, evs) \<Rightarrow> (success, Run stop # evs)))
        | Raised x \<Rightarrow> (case failed_run Windows Restart service_name x
                         of (success, evs) \<Rightarrow> (success, Run stop # evs)))"

definition windows_enable_service :: "world \<Rightarrow> string \<Rightarrow> bool \<times> event list" where
  "windows_enable_service w service_name =
     service_action w Windows Enable [''sc.exe'', ''config'', service_name, ''start='', ''auto'']
       service_name"

definition windows_disable_service :: "world \<Rightarrow> string \<Rightarrow> bool \<times> event list" where
  "windows_disable_service w service_name =
     service_action w Windows Disable [''sc.exe'', ''config'', service_name, ''start='', ''disabled'']
       service_name"

text \<open>services/launchd_backend.py\<close>

definition launchd_start_service :: "world \<Rightarrow> string \<Rightarrow> bool \<times> event list" where
  "launchd_start_service w service_label =
     service_action w Launchd Start [''sudo'', ''launchctl'', ''start'', service_label] service_label"

definition launchd_stop_service :: "world \<Rightarrow> string \<Rightarrow> bool \<times> event list" where
  "launchd_stop_service w service_label =
     service_action w Launchd Stop [''sudo'', ''launchctl'', ''stop'', service_label] service_label"

text \<open>
  Restart on launchd stops, then starts. The completed stop is bound to \<open>stop_result\<close>
  and not looked at again: the start runs whatever the stop returned, and the result is
  the start's.
\<close>

definition launchd_restart_service :: "world \<Rightarrow> string \<Rightarrow> bool \<times> event list" where
  "launchd_restart_service w service_label =
    (let stop = [''sudo'', ''launchctl'', ''stop'', service_label]
     in case subprocess_run w stop of
          Completed returncode out err \<Rightarrow>
            (case service_action w Launchd Restart
                    [''sudo'', ''launchctl'', ''start'', service_label] service_label
             of (success, evs) \<Rightarrow> (success, Run stop # evs))
        | Raised x \<Rightarrow> (case failed_run Launchd Restart service_label x
                         of (success, evs) \<Rightarrow> (success, Run stop # evs)))"

text \<open>
  Enable and disable on launchd load and unload a plist file, looked for in four
  directories in this order; the first path that exists is taken.
\<close>

definition plist_paths :: "string \<Rightarrow> string list" where
  "plist_paths service_label =
    [''/Library/LaunchDaemons/'' @ service_label @ ''.plist'',
     ''/System/Library/LaunchDaemons/'' @ service_label @ ''.plist'',
     ''/Library/LaunchAgents/'' @ service_label @ ''.plist'',
     ''/System/Library/LaunchAgents/'' @ service_label @ ''.plist'']"

definition find_plist :: "world \<Rightarrow> string \<Rightarrow> string option" where
  "find_plist w service_label = List.find (path_exists w) (plist_paths service_label)"

definition launchd_enable_service :: "world \<Rightarrow> string \<Rightarrow> bool \<times> event list" where
  "launchd_enable_service w service_label =
    (case find_plist w service_label of
       None \<Rightarrow> (False, [Print_error (''Could not find plist file for '' @ service_label)])
     | Some plist_file \<Rightarrow>
         service_action w Launchd Enable [''sudo'', ''launchctl'', ''load'', plist_file] service_label)"

definition launchd_disable_service :: "world \<Rightarrow> string \<Rightarrow> bool \<times> event list" where
  "launchd_disable_service w service_label =
    (case find_plist w service_label of
       None \<Rightarrow> (False, [Print_error (''Could not find plist file for '' @ service_label)])
     | Some plist_file \<Rightarrow>
         service_action w Launchd Disable [''sudo'', ''launchctl'', ''unload'', plist_file] service_label)"

subsection \<open>Listing services\<close>

fun display_name :: "backend \<Rightarrow> string" where
  "display_name Systemd = ''systemd''"
| "display_name Windows = ''Windows''"
| "display_name Launchd = ''launchd''"

text \<open>
  The failure paths of the three \<open>list_services\<close> methods are the same up to the
  backend's name: a non-zero return code prints one error; a timeout prints one error; any
  other exception prints one error and writes one ERROR record. Each returns \<open>[]\<close>.
\<close>

definition list_failed :: "backend \<Rightarrow> exn \<Rightarrow> event list" where
  "list_failed b x =
    (case x of
       TimeoutExpired \<Rightarrow> [Print_error (''Timeout listing '' @ display_name b @ '' services'')]
     | FileNotFoundError e \<Rightarrow>
         [Print_error (''Error listing '' @ display_name b @ '' services: '' @ e),
          Log_error (backend_name b @ '' list_services error: '' @ e)]
     | OtherException e \<Rightarrow>
         [Print_error (''Error listing '' @ display_name b @ '' services: '' @ e),
          Log_error (backend_name b @ '' list_services error: '' @ e)])"

definition run_list :: "world \<Rightarrow> backend \<Rightarrow> string list \<Rightarrow> (string \<Rightarrow> service list)
    \<Rightarrow> service list \<times> event list" where
  "run_list w b argv parse =
    (case subprocess_run w argv of
       Completed returncode out err \<Rightarrow>
         (if returncode \<noteq> 0
          then ([], [Run argv, Print_error (''Failed to list '' @ display_name b @ '' services'')])
          else (parse out, [Run argv]))
     | Raised x \<Rightarrow> ([], Run argv # list_failed b x))"

text \<open>
  systemd: the first line of the stripped output is dropped; a line that is blank or
  starts with \<open>LOAD\<close> is skipped, and so is a line with fewer than four fields.
\<close>

definition systemd_parse_line :: "string \<Rightarrow> service option" where
  "systemd_parse_line line =
    (if py_strip line \<noteq> [] \<and> \<not> startswith line ''LOAD''
     then (case py_split line of
             service_name # load_state # active_state # sub_state # rest \<Rightarrow>
               Some [(''name'', PyStr service_name),
                     (''load_state'', PyStr load_state),
                     (''active_state'', PyStr active_state),
                     (''sub_state'', PyStr sub_state),
                     (''description'', PyStr (py_join '' '' rest))]
           | _ \<Rightarrow> None)
     else None)"

definition systemd_parse :: "string \<Rightarrow> service list" where
  "systemd_parse out = List.map_filter systemd_parse_line (tl (split_on (CHR 0x0A) (py_strip out)))"

definition systemd_list_services :: "world \<Rightarrow> service list \<times> event list" where
  "systemd_list_services w =
     run_list w Systemd [''systemctl'', ''list-units'', ''--type=service'', ''--all''] systemd_parse"

text \<open>
  launchd: the first line is dropped; a non-blank line with at least three tab-separated
  fields gives a service. The first field is read as an integer unless it is \<open>-\<close>; when
  it is no integer, \<open>pid\<close> is \<open>None\<close>.
\<close>

definition launchd_parse_line :: "string \<Rightarrow> service option" where
  "launchd_parse_line line =
    (if py_strip line \<noteq> []
     then (case split_on (CHR 0x09) line of
             p0 # p1 # p2 # rest \<Rightarrow>
               (let pid = py_strip p0; status = py_strip p1; label = py_strip p2;
                    pid_int = (if pid \<noteq> ''-''
                               then (case py_int pid of Some n \<Rightarrow> PyInt n | None \<Rightarrow> PyNone)
                               else PyNone)
                in Some [(''label'', PyStr label),
                         (''pid'', pid_int),
                         (''status'', PyStr status),
                         (''last_exit_code'', if pid \<noteq> ''-'' then PyStr pid else PyNone)])
           | _ \<Rightarrow> None)
     else None)"

definition launchd_parse :: "string \<Rightarrow> service list" where
  "launchd_parse out = List.map_filter launchd_parse_line (tl (split_on (CHR 0x0A) (py_strip out)))"

definition launchd_list_services :: "world \<Rightarrow> service list \<times> event list" where
  "launchd_list_services w = run_list w Launchd [''launchctl'', ''list''] launchd_parse"

text \<open>
  Windows: the lines are read in order into the dictionary \<open>current_service\<close>; a
  \<open>SERVICE_NAME:\<close> line closes the current dictionary, if it is not empty, and opens a
  new one. The state of the loop is the list built so far and the current dictionary.
\<close>

definition windows_parse_line :: "service list \<times> service \<Rightarrow> string \<Rightarrow> service list \<times> service" where
  "windows_parse_line st raw =
    (case st of (services, current_service) \<Rightarrow>
      (let line = py_strip raw; val = PyStr (py_strip (after_first (CHR '':'') line))
       in if startswith line ''SERVICE_NAME:''
          then ((if current_service \<noteq> [] then services @ [current_service] else services),
                [(''name'', val)])
          else if startswith line ''DISPLAY_NAME:''
          then (services, AList.update ''display_name'' val current_service)
          else if startswith line ''TYPE:''
          then (services, AList.update ''type'' val current_service)
          else if startswith line ''STATE:''
          then (services, AList.update ''state'' val current_service)
          else (services, current_service)))"

definition windows_parse :: "string \<Rightarrow> service list" where
  "windows_parse out =
    (case foldl windows_parse_line ([], []) (split_on (CHR 0x0A) out) of
       (services, current_service) \<Rightarrow>
         if current_service \<noteq> [] then services @ [current_service] else services)"

definition windows_list_services :: "world \<Rightarrow> service list \<times> event list" where
  "windows_list_services w =
     run_list w Windows [''sc.exe'', ''query'', ''type='', ''service'', ''state='', ''all''] windows_parse"

subsection \<open>Availability probes\<close>

text \<open>
  The result is the boolean returned, or the text of the exception that leaves the
  method. systemd's probe catches \<open>TimeoutExpired\<close> and \<open>FileNotFoundError\<close> only.
\<close>

definition systemd_is_available :: "world \<Rightarrow> (string + bool) \<times> event list" where
  "systemd_is_available w =
    (let argv = [''systemctl'', ''--version'']
     in (case subprocess_run w argv of
           Completed returncode out err \<Rightarrow> Inr (returncode = 0)
         | Raised TimeoutExpired \<Rightarrow> Inr False
         | Raised (FileNotFoundError e) \<Rightarrow> Inr False
         | Raised (OtherException e) \<Rightarrow> Inl e,
         [Run argv]))"

definition no_uname :: string where
  "no_uname = ''module '' @ [CHR 0x27] @ ''os'' @ [CHR 0x27] @ '' has no attribute ''
     @ [CHR 0x27] @ ''uname'' @ [CHR 0x27]"

definition launchd_is_available :: "world \<Rightarrow> (string + bool) \<times> event list" where
  "launchd_is_available w =
    (case os_uname w of
       None \<Rightarrow> (Inl no_uname, [])
     | Some sysname \<Rightarrow> (Inr (sysname = ''Darwin''), []))"

definition windows_is_available :: "world \<Rightarrow> (string + bool) \<times> event list" where
  "windows_is_available w = (Inr (os_name w = ''nt''), [])"

subsection \<open>Dispatch on the backend object\<close>

fun is_available :: "backend \<Rightarrow> world \<Rightarrow> (string + bool) \<times> event list" where
  "is_available Systemd w = systemd_is_available w"
| "is_available Windows w = windows_is_available w"
| "is_available Launchd w = launchd_is_available w"

fun backend_list_services :: "backend \<Rightarrow> world \<Rightarrow> service list \<times> event list" where
  "backend_list_services Systemd w = systemd_list_services w"
| "backend_list_services Windows w = windows_list_services w"
| "backend_list_services Launchd w = launchd_list_services w"

fun backend_action :: "backend \<Rightarrow> action \<Rightarrow> world \<Rightarrow> string \<Rightarrow> bool \<times> event list" where
  "backend_action Systemd Start = systemd_start_service"
| "backend_action Systemd Stop = systemd_stop_service"
| "backend_action Systemd Restart = systemd_restart_service"
| "backend_action Systemd Enable = systemd_enable_service"
| "backend_action Systemd Disable = systemd_disable_service"
| "backend_action Windows Start = windows_start_service"
| "backend_action Windows Stop = windows_stop_service"
| "backend_action Windows Restart = windows_restart_service"
| "backend_action Windows Enable = windows_enable_service"
| "backend_action Windows Disable = windows_disable_service"
| "backend_action Launchd Start = launchd_start_service"
| "backend_action Launchd Stop = launchd_stop_service"
| "backend_action Launchd Restart = launchd_restart_service"
| "backend_action Launchd Enable = launchd_enable_service"
| "backend_action Launchd Disable = launchd_disable_service"

section \<open>Backend selection and the service commands (core/core.py)\<close>

text \<open>
  \<open>get_service_backend\<close> lowers \<open>platform.system()\<close> and takes one of three branches.
  A branch imports the backend's module, constructs the backend and asks
  \<open>is_available()\<close>; the backend is returned when the answer is \<open>True\<close>. An exception
  anywhere (the import, the probe) is printed and gives \<open>None\<close>.
\<close>

definition probe_backend :: "world \<Rightarrow> backend \<Rightarrow> backend option \<times> event list" where
  "probe_backend w b =
    (case import_error w b of
       Some e \<Rightarrow> (None, [Print_error (''Error getting service backend: '' @ e)])
     | None \<Rightarrow>
        (case is_available b w of
           (Inr available, evs) \<Rightarrow> ((if available then Some b else None), Instantiate b # evs)
         | (Inl e, evs) \<Rightarrow>
             (None, Instantiate b # evs @ [Print_error (''Error getting service backend: '' @ e)])))"

definition get_service_backend :: "world \<Rightarrow> backend option \<times> event list" where
  "get_service_backend w =
    (let system = py_lower (platform_system w)
     in if system = ''linux'' then probe_backend w Systemd
        else if system = ''windows'' then probe_backend w Windows
        else if system = ''darwin'' then probe_backend w Launchd
        else (None, []))"

text \<open>Dictionary operations: \<open>k in d\<close> and \<open>d.get(k, default)\<close>; the truth of a value.\<close>

definition has_key :: "service \<Rightarrow> string \<Rightarrow> bool" where
  "has_key d k = (map_of d k \<noteq> None)"

definition dict_get :: "service \<Rightarrow> string \<Rightarrow> pyval \<Rightarrow> pyval" where
  "dict_get d k dflt = (case map_of d k of Some v \<Rightarrow> v | None \<Rightarrow> dflt)"

fun truthy :: "pyval \<Rightarrow> bool" where
  "truthy (PyStr s) = (s \<noteq> [])"
| "truthy (PyInt n) = (n \<noteq> 0)"
| "truthy PyNone = False"

text \<open>
  The body of the loop of \<open>list_services\<close> that builds \<open>table_data\<close>: one row for a
  dictionary with a \<open>name\<close> key (Windows and systemd), one for a dictionary with a
  \<open>label\<close> key (launchd), nothing otherwise.
\<close>

definition table_entry :: "service \<Rightarrow> table_row option" where
  "table_entry service =
    (if has_key service ''name''
     then Some \<lparr>Name = dict_get service ''name'' (PyStr []),
                Display_Name = dict_get service ''display_name''
                                 (dict_get service ''description'' (PyStr [])),
                State = dict_get service ''state''
                          (dict_get service ''active_state'' (PyStr ''Unknown'')),
                Type = dict_get service ''type'' (PyStr ''Service'')\<rparr>
     else if has_key service ''label''
     then Some \<lparr>Name = dict_get service ''label'' (PyStr []),
                Display_Name = dict_get service ''label'' (PyStr []),
                State = (if truthy (dict_get service ''pid'' PyNone)
                         then PyStr ''Running'' else PyStr ''Stopped''),
                Type = PyStr ''LaunchD''\<rparr>
     else None)"

definition table_data :: "service list \<Rightarrow> table_row list" where
  "table_data services = List.map_filter table_entry services"

text \<open>
  \<open>list_services\<close> of core/core.py returns nothing; its effects are the events. The
  event \<open>Print_table\<close> stands for the table and for the line that reports its length.
\<close>

definition list_services :: "world \<Rightarrow> event list" where
  "list_services w =
    (case get_service_backend w of
       (None, evs) \<Rightarrow> evs @ [Print_error ''No suitable service backend found for this platform'']
     | (Some b, evs) \<Rightarrow>
        (case backend_list_services b w of (services, evs') \<Rightarrow>
           if services = [] then evs @ evs' @ [Print_warning ''No services found or access denied'']
           else if table_data services \<noteq> [] then evs @ evs' @ [Print_table (table_data services)]
           else evs @ evs' @ [Print_warning ''No services to display'']))"

text \<open>The dictionary \<open>actions\<close> of \<open>manage_service\<close>, by its keys.\<close>

definition actions :: "(string \<times> action) list" where
  "actions = [(''start'', Start), (''stop'', Stop), (''restart'', Restart),
              (''enable'', Enable), (''disable'', Disable)]"

definition manage_service :: "world \<Rightarrow> string \<Rightarrow> string \<Rightarrow> bool \<times> event list" where
  "manage_service w action service_name =
    (case get_service_backend w of
       (None, evs) \<Rightarrow>
         (False, evs @ [Print_error ''No suitable service backend found for this platform''])
     | (Some b, evs) \<Rightarrow>
         if \<not> is_admin w
         then (False, evs @ [Print_error ''Service management requires administrator privileges''])
         else (case map_of actions action of
                 None \<Rightarrow> (False, evs @ [Print_error (''Unknown action: '' @ action)])
               | Some a \<Rightarrow>
                   (case backend_action b a w service_name of
                      (success, evs') \<Rightarrow> (success, evs @ Invoke b action service_name # evs'))))"


text \<open>
  For the Windows parser: a line that sets the state of the current dictionary (once
  stripped it starts with \<open>STATE:\<close>) and the value it stores; two keys that no
  dictionary of the parser has; where the \<open>state\<close> entry of a dictionary comes from;
  the invariant of the parser's loop over the lines \<open>ls\<close> of the output.
\<close>

definition is_state_line :: "string \<Rightarrow> bool" where
  "is_state_line raw = startswith (py_strip raw) ''STATE:''"

definition state_text :: "string \<Rightarrow> pyval" where
  "state_text raw = PyStr (py_strip (after_first (CHR '':'') (py_strip raw)))"

definition plain_keys :: "service \<Rightarrow> bool" where
  "plain_keys d = (map_of d ''active_state'' = None \<and> map_of d ''label'' = None)"

definition state_from :: "string list \<Rightarrow> service \<Rightarrow> bool" where
  "state_from ls d =
    (case map_of d ''state'' of
       None \<Rightarrow> True
     | Some v \<Rightarrow> list_ex (\<lambda>raw. is_state_line raw \<and> v = state_text raw) ls)"

definition windows_inv :: "string list \<Rightarrow> service list \<times> service \<Rightarrow> bool" where
  "windows_inv ls st =
    (list_all (\<lambda>d. plain_keys d \<and> state_from ls d) (fst st)
     \<and> plain_keys (snd st) \<and> state_from ls (snd st))"

section \<open>Properties of the sampling engine\<close>


text \<open>
  Two consecutive readings of 1000 and 1500 bytes read give a delta of 500 in the loop.
\<close>

lemma io_delta_example:
  "watch_process_loop
     \<lparr>prev_io = Some \<lparr>read_bytes = 1000, write_bytes = 0\<rparr>,
      prev_net = Some \<lparr>bytes_sent = 0, bytes_recv = 0\<rparr>, wp_iteration = 0\<rparr>
     [\<lparr>proc_stats = Got (1, \<lparr>read_bytes = 1500, write_bytes = 0\<rparr>),
       net_now = Some \<lparr>bytes_sent = 0, bytes_recv = 0\<rparr>, still_running = True,
       duration_reached = False, interrupted = False\<rparr>]
   = ([Display \<lparr>iteration = 1, num_threads = 1, io_read = 500, io_write = 0,
                 net_sent = 0, net_recv = 0\<rparr>], False)"
  by (simp add: watch_process_tick_def)


section \<open>Properties of the service backends\<close>

subsection \<open>Restart as stop, then start\<close>

text \<open>
  On Windows a stop that exits non-zero ends the restart with \<open>False\<close>, before any
  start.
\<close>

lemma windows_restart_failed_stop:
  "subprocess_run w [''sc.exe'', ''stop'', n] = Completed rc out err \<Longrightarrow> rc \<noteq> 0 \<Longrightarrow>
   windows_restart_service w n
     = (False, [Run [''sc.exe'', ''stop'', n],
                Print_error (''Failed to stop service '' @ n @ '' for restart'')])"
  by (simp add: windows_restart_service_def)

text \<open>
  C3 (a restart made of stop and start returns true only if both steps succeed, and false
  when the stop fails). The launchd backend, at a service whose stop exits with code 3 and
  whose start exits with code 0: both commands are run, the stop's exit code is never
  looked at, and the restart returns \<open>True\<close> and logs success.
\<close>

theorem launchd_restart_ignores_failed_stop:
  "launchd_restart_service
     \<lparr>platform_system = ''Darwin'', os_name = ''posix'', os_uname = Some ''Darwin'',
      import_error = (\<lambda>b. None),
      subprocess_run = (\<lambda>argv. if argv = [''sudo'', ''launchctl'', ''stop'', ''com.example.job'']
                                 then Completed 3 [] ''No such process''
                                 else Completed 0 [] []),
      path_exists = (\<lambda>p. False), is_admin = True\<rparr>
     ''com.example.job''
   = (True,
      [Run [''sudo'', ''launchctl'', ''stop'', ''com.example.job''],
       Run [''sudo'', ''launchctl'', ''start'', ''com.example.job''],
       Print_success ''Restarted service com.example.job'',
       Log_info ''launchd restart_service: com.example.job success=True''])"
  by (simp add: launchd_restart_service_def service_action_def report_def py_bool_def)

subsection \<open>Enabling a launchd service without a plist file\<close>

text \<open>
  C4 (as stated: the call returns false, logs a NotFound record to the logging sink and
  runs no launchctl command). With no plist file in any of the four directories the call
  returns \<open>False\<close> and runs nothing, but its only effect is one error line on the
  console: no record reaches the logging sink.
\<close>

theorem missing_plist_counterexample:
  "launchd_enable_service
     \<lparr>platform_system = ''Darwin'', os_name = ''posix'', os_uname = Some ''Darwin'',
      import_error = (\<lambda>b. None), subprocess_run = (\<lambda>argv. Completed 0 [] []),
      path_exists = (\<lambda>p. False), is_admin = True\<rparr> ''com.example.job''
    = (False, [Print_error ''Could not find plist file for com.example.job''])
   \<and> log_records [Print_error ''Could not find plist file for com.example.job''] = []"
  by (simp add: launchd_enable_service_def find_plist_def plist_paths_def log_records_def)

text \<open>
  C4 (amended). When none of the four candidate paths exists, \<open>enable_service\<close> and
  \<open>disable_service\<close> of the launchd backend return \<open>False\<close>, print one error line that
  names the service on the console, run no subprocess, and write no record to the
  logging sink.
\<close>

theorem missing_plist:
  assumes "list_all (\<lambda>p. \<not> path_exists w p) (plist_paths service_label)"
  shows "launchd_enable_service w service_label
           = (False, [Print_error (''Could not find plist file for '' @ service_label)])
       \<and> launchd_disable_service w service_label
           = (False, [Print_error (''Could not find plist file for '' @ service_label)])
       \<and> filter is_run (snd (launchd_enable_service w service_label)) = []
       \<and> filter is_run (snd (launchd_disable_service w service_label)) = []
       \<and> log_records (snd (launchd_enable_service w service_label)) = []
       \<and> log_records (snd (launchd_disable_service w service_label)) = []"
proof -
  from assms have "find_plist w service_label = None"
    by (simp add: find_plist_def plist_paths_def)
  then show ?thesis
    by (simp add: launchd_enable_service_def launchd_disable_service_def log_records_def)
qed

theorem missing_plist_witness:
  "list_all (\<lambda>p. \<not> path_exists
       \<lparr>platform_system = ''Darwin'', os_name = ''posix'', os_uname = Some ''Darwin'',
        import_error = (\<lambda>b. None), subprocess_run = (\<lambda>argv. Completed 0 [] []),
        path_exists = (\<lambda>p. False), is_admin = True\<rparr> p) (plist_paths ''job'')
   \<and> launchd_enable_service
       \<lparr>platform_system = ''Darwin'', os_name = ''posix'', os_uname = Some ''Darwin'',
        import_error = (\<lambda>b. None), subprocess_run = (\<lambda>argv. Completed 0 [] []),
        path_exists = (\<lambda>p. False), is_admin = True\<rparr> ''job''
      = (False, [Print_error ''Could not find plist file for job''])"
  using missing_plist [of "\<lparr>platform_system = ''Darwin'', os_name = ''posix'', os_uname = Some ''Darwin'',
        import_error = (\<lambda>b. None), subprocess_run = (\<lambda>argv. Completed 0 [] []),
        path_exists = (\<lambda>p. False), is_admin = True\<rparr>" "''job''"]
  by (simp add: plist_paths_def)

subsection \<open>Availability probes\<close>

text \<open>
  C9 (no backend's \<open>is_available()\<close> raises on an operating system it does not support;
  it returns false there). The launchd probe reads \<open>os.uname()\<close>. On Windows the \<open>os\<close>
  module has no \<open>uname\<close>, so the probe leaves with an AttributeError instead of
  returning \<open>False\<close>.
\<close>

theorem launchd_is_available_raises_on_windows:
  "launchd_is_available
     \<lparr>platform_system = ''Windows'', os_name = ''nt'', os_uname = None,
      import_error = (\<lambda>b. None), subprocess_run = (\<lambda>argv. Raised (FileNotFoundError [])),
      path_exists = (\<lambda>p. False), is_admin = False\<rparr>
   = (Inl no_uname, [])"
  by (simp add: launchd_is_available_def)

section \<open>Properties of backend selection and of manage_service\<close>

lemma probe_backend_instantiate:
  "length (filter is_instantiate (snd (probe_backend w b))) \<le> 1"
  by (cases b)
     (auto simp: probe_backend_def systemd_is_available_def windows_is_available_def
        launchd_is_available_def Let_def split: option.splits sum.splits prod.splits)

lemma probe_backend_unavailable:
  "fst (is_available b w) = Inr False \<Longrightarrow> fst (probe_backend w b) = None"
  by (auto simp: probe_backend_def split: option.splits sum.splits prod.splits)

lemma probe_backend_unavailable_events:
  "fst (is_available b w) = Inr False \<Longrightarrow> import_error w b = None \<Longrightarrow>
   snd (probe_backend w b) = Instantiate b # snd (is_available b w)"
  by (auto simp: probe_backend_def split: option.splits sum.splits prod.splits)

lemma probe_backend_no_invoke:
  "filter is_invoke (snd (probe_backend w b)) = []"
  by (cases b)
     (auto simp: probe_backend_def systemd_is_available_def windows_is_available_def
        launchd_is_available_def Let_def split: option.splits sum.splits prod.splits)

lemma get_service_backend_no_invoke:
  "filter is_invoke (snd (get_service_backend w)) = []"
  by (simp add: get_service_backend_def Let_def probe_backend_no_invoke)

lemma unknown_action:
  "action \<notin> {''start'', ''stop'', ''restart'', ''enable'', ''disable''} \<Longrightarrow>
   map_of actions action = None"
  by (simp add: actions_def)

text \<open>
  C5. A run of the selector constructs at most one backend. When the backend that matches
  the lowered platform name answers \<open>False\<close> to \<open>is_available()\<close>, the selector
  returns \<open>None\<close>; when the platform name matches no backend, it returns \<open>None\<close> and
  constructs nothing. So no second backend is constructed after a probe that failed.
\<close>

theorem selector_none_and_single_instance:
  "length (filter is_instantiate (snd (get_service_backend w))) \<le> 1
   \<and> (py_lower (platform_system w) = ''linux'' \<and> fst (is_available Systemd w) = Inr False
        \<longrightarrow> fst (get_service_backend w) = None)
   \<and> (py_lower (platform_system w) = ''windows'' \<and> fst (is_available Windows w) = Inr False
        \<longrightarrow> fst (get_service_backend w) = None)
   \<and> (py_lower (platform_system w) = ''darwin'' \<and> fst (is_available Launchd w) = Inr False
        \<longrightarrow> fst (get_service_backend w) = None)
   \<and> (py_lower (platform_system w) \<notin> {''linux'', ''windows'', ''darwin''}
        \<longrightarrow> get_service_backend w = (None, []))"
proof -
  have "length (filter is_instantiate (snd (get_service_backend w))) \<le> 1"
    using probe_backend_instantiate [of w] by (simp add: get_service_backend_def Let_def)
  moreover have "py_lower (platform_system w) = ''linux'' \<and> fst (is_available Systemd w) = Inr False
        \<longrightarrow> fst (get_service_backend w) = None"
    by (simp add: get_service_backend_def Let_def probe_backend_unavailable)
  moreover have "py_lower (platform_system w) = ''windows'' \<and> fst (is_available Windows w) = Inr False
        \<longrightarrow> fst (get_service_backend w) = None"
    by (simp add: get_service_backend_def Let_def probe_backend_unavailable)
  moreover have "py_lower (platform_system w) = ''darwin'' \<and> fst (is_available Launchd w) = Inr False
        \<longrightarrow> fst (get_service_backend w) = None"
    by (simp add: get_service_backend_def Let_def probe_backend_unavailable)
  moreover have "py_lower (platform_system w) \<notin> {''linux'', ''windows'', ''darwin''}
        \<longrightarrow> get_service_backend w = (None, [])"
    by (simp add: get_service_backend_def Let_def)
  ultimately show ?thesis by blast
qed

text \<open>
  C10. For an action string outside start, stop, restart, enable, disable, and likewise
  when the caller is no administrator or the selector returns no backend,
  \<open>manage_service\<close> returns \<open>False\<close>; it calls no action method of a backend and
  starts no subprocess besides those of the selector's probe: its effects are the
  selector's, followed by one error line.
\<close>

theorem manage_service_refuses:
  assumes "action \<notin> {''start'', ''stop'', ''restart'', ''enable'', ''disable''}
           \<or> \<not> is_admin w \<or> fst (get_service_backend w) = None"
  shows "fst (manage_service w action service_name) = False
       \<and> filter is_invoke (snd (manage_service w action service_name)) = []
       \<and> filter is_run (snd (manage_service w action service_name))
           = filter is_run (snd (get_service_backend w))
       \<and> (\<exists>m. snd (manage_service w action service_name)
                 = snd (get_service_backend w) @ [Print_error m])"
proof (cases "get_service_backend w")
  case (Pair r evs)
  have ni: "filter is_invoke evs = []"
    using get_service_backend_no_invoke [of w] Pair by simp
  show ?thesis
  proof (cases r)
    case None
    with Pair ni show ?thesis by (simp add: manage_service_def)
  next
    case (Some b)
    with assms Pair have "\<not> is_admin w \<or> map_of actions action = None"
      using unknown_action by auto
    with Pair Some ni show ?thesis by (auto simp: manage_service_def)
  qed
qed


lemma lower_Linux: "py_lower ''Linux'' = ''linux''"
  by code_simp

lemma lower_Windows: "py_lower ''Windows'' = ''windows''"
  by code_simp

lemma lower_Darwin: "py_lower ''Darwin'' = ''darwin''"
  by code_simp

theorem selector_none_and_single_instance_witness:
  "py_lower (platform_system
      \<lparr>platform_system = ''Linux'', os_name = ''posix'', os_uname = Some ''Linux'',
       import_error = (\<lambda>b. None), subprocess_run = (\<lambda>argv. Raised (FileNotFoundError ''systemctl'')),
       path_exists = (\<lambda>p. False), is_admin = True\<rparr>) = ''linux''
   \<and> fst (is_available Systemd
      \<lparr>platform_system = ''Linux'', os_name = ''posix'', os_uname = Some ''Linux'',
       import_error = (\<lambda>b. None), subprocess_run = (\<lambda>argv. Raised (FileNotFoundError ''systemctl'')),
       path_exists = (\<lambda>p. False), is_admin = True\<rparr>) = Inr False
   \<and> fst (get_service_backend
      \<lparr>platform_system = ''Linux'', os_name = ''posix'', os_uname = Some ''Linux'',
       import_error = (\<lambda>b. None), subprocess_run = (\<lambda>argv. Raised (FileNotFoundError ''systemctl'')),
       path_exists = (\<lambda>p. False), is_admin = True\<rparr>) = None"
  using selector_none_and_single_instance [of
      "\<lparr>platform_system = ''Linux'', os_name = ''posix'', os_uname = Some ''Linux'',
       import_error = (\<lambda>b. None), subprocess_run = (\<lambda>argv. Raised (FileNotFoundError ''systemctl'')),
       path_exists = (\<lambda>p. False), is_admin = True\<rparr>"]
  by (simp add: lower_Linux systemd_is_available_def)

theorem manage_service_refuses_witness:
  "''reload'' \<notin> {''start'', ''stop'', ''restart'', ''enable'', ''disable''}
   \<and> manage_service
      \<lparr>platform_system = ''Linux'', os_name = ''posix'', os_uname = Some ''Linux'',
       import_error = (\<lambda>b. None), subprocess_run = (\<lambda>argv. Completed 0 [] []),
       path_exists = (\<lambda>p. False), is_admin = True\<rparr> ''reload'' ''sshd''
     = (False, [Instantiate Systemd, Run [''systemctl'', ''--version''],
                Print_error ''Unknown action: reload''])"
  using manage_service_refuses [of "''reload''"
      "\<lparr>platform_system = ''Linux'', os_name = ''posix'', os_uname = Some ''Linux'',
       import_error = (\<lambda>b. None), subprocess_run = (\<lambda>argv. Completed 0 [] []),
       path_exists = (\<lambda>p. False), is_admin = True\<rparr>" "''sshd''"]
  by (simp add: manage_service_def get_service_backend_def probe_backend_def
        systemd_is_available_def lower_Linux actions_def)

subsection \<open>What a mutating action returns and logs\<close>








subsection \<open>Failures of list_services\<close>

lemma backend_list_services_run_list:
  "\<exists>argv parse. backend_list_services b w = run_list w b argv parse"
  by (cases b)
     (auto simp: systemd_list_services_def windows_list_services_def launchd_list_services_def)

lemma run_list_failure:
  "snd (run_list w b argv parse) = Run argv # tl (snd (run_list w b argv parse))
   \<and> (case subprocess_run w argv of
        Completed rc out err \<Rightarrow>
          if rc \<noteq> 0
          then fst (run_list w b argv parse) = []
             \<and> tl (snd (run_list w b argv parse))
                 = [Print_error (''Failed to list '' @ display_name b @ '' services'')]
          else tl (snd (run_list w b argv parse)) = []
      | Raised TimeoutExpired \<Rightarrow>
          fst (run_list w b argv parse) = []
          \<and> tl (snd (run_list w b argv parse))
              = [Print_error (''Timeout listing '' @ display_name b @ '' services'')]
      | Raised (FileNotFoundError e) \<Rightarrow>
          fst (run_list w b argv parse) = []
          \<and> tl (snd (run_list w b argv parse))
              = [Print_error (''Error listing '' @ display_name b @ '' services: '' @ e),
                 Log_error (backend_name b @ '' list_services error: '' @ e)]
      | Raised (OtherException e) \<Rightarrow>
          fst (run_list w b argv parse) = []
          \<and> tl (snd (run_list w b argv parse))
              = [Print_error (''Error listing '' @ display_name b @ '' services: '' @ e),
                 Log_error (backend_name b @ '' list_services error: '' @ e)])"
  by (auto simp: run_list_def list_failed_def split: run_outcome.splits exn.splits)

text \<open>
  C2 (amended). For each of the three backends \<open>list_services\<close> starts one command and
  returns a list in every case. When the command exits non-zero, and when it times out,
  the result is empty and the only report is one error line on the console: no record
  reaches the logging sink. When the command raises any other exception, the result is
  empty, with one error line on the console and one ERROR record in the logging sink.
  When the command exits with code 0 nothing is printed or logged, whatever the output
  is: text that does not match the expected layout is not a failure, its lines are skipped.
\<close>

theorem list_services_failure:
  "\<exists>argv rest. snd (backend_list_services b w) = Run argv # rest
   \<and> (case subprocess_run w argv of
        Completed rc out err \<Rightarrow>
          if rc \<noteq> 0
          then fst (backend_list_services b w) = []
             \<and> rest = [Print_error (''Failed to list '' @ display_name b @ '' services'')]
          else rest = []
      | Raised TimeoutExpired \<Rightarrow>
          fst (backend_list_services b w) = []
          \<and> rest = [Print_error (''Timeout listing '' @ display_name b @ '' services'')]
      | Raised (FileNotFoundError e) \<Rightarrow>
          fst (backend_list_services b w) = []
          \<and> rest = [Print_error (''Error listing '' @ display_name b @ '' services: '' @ e),
                     Log_error (backend_name b @ '' list_services error: '' @ e)]
      | Raised (OtherException e) \<Rightarrow>
          fst (backend_list_services b w) = []
          \<and> rest = [Print_error (''Error listing '' @ display_name b @ '' services: '' @ e),
                     Log_error (backend_name b @ '' list_services error: '' @ e)])"
proof -
  obtain argv parse where eq: "backend_list_services b w = run_list w b argv parse"
    using backend_list_services_run_list by blast
  show ?thesis
    unfolding eq using run_list_failure [of w b argv parse] by blast
qed

lemma systemd_parse_mismatch:
  "systemd_parse (''unexpected output'' @ [CHR 0x0A] @ ''more text'') = []"
  by code_simp

text \<open>
  C2 (as stated: on a non-zero exit, a timeout or a parse mismatch the result is empty and
  exactly one log entry is emitted). On systemd, a listing that exits with code 1 gives the
  empty list and one console line, and no record for the logging sink; a listing that
  exits with code 0 and prints text in another layout gives the empty list with no
  report of any kind.
\<close>

theorem list_failure_log_counterexample:
  "systemd_list_services
     \<lparr>platform_system = ''Linux'', os_name = ''posix'', os_uname = Some ''Linux'',
      import_error = (\<lambda>b. None), subprocess_run = (\<lambda>argv. Completed 1 [] ''failed''),
      path_exists = (\<lambda>p. False), is_admin = True\<rparr>
     = ([], [Run [''systemctl'', ''list-units'', ''--type=service'', ''--all''],
             Print_error ''Failed to list systemd services''])
   \<and> log_records [Run [''systemctl'', ''list-units'', ''--type=service'', ''--all''],
                   Print_error ''Failed to list systemd services''] = []
   \<and> systemd_list_services
     \<lparr>platform_system = ''Linux'', os_name = ''posix'', os_uname = Some ''Linux'',
      import_error = (\<lambda>b. None),
      subprocess_run = (\<lambda>argv. Completed 0 (''unexpected output'' @ [CHR 0x0A] @ ''more text'') []),
      path_exists = (\<lambda>p. False), is_admin = True\<rparr>
     = ([], [Run [''systemctl'', ''list-units'', ''--type=service'', ''--all'']])"
  by (simp add: systemd_list_services_def run_list_def log_records_def systemd_parse_mismatch [simplified])

subsection \<open>The state column of the service table\<close>

lemma systemd_row_state:
  assumes "systemd_parse_line line = Some svc"
  shows "\<exists>row. table_entry svc = Some row \<and> State row = PyStr (py_split line ! 2)"
  using assms
  by (auto simp: systemd_parse_line_def table_entry_def has_key_def dict_get_def
           split: if_splits list.splits)

lemma launchd_row_state:
  assumes "launchd_parse_line line = Some svc"
  shows "\<exists>row. table_entry svc = Some row
           \<and> State row = (if truthy (dict_get svc ''pid'' PyNone)
                          then PyStr ''Running'' else PyStr ''Stopped'')"
  using assms
  by (auto simp: launchd_parse_line_def table_entry_def has_key_def dict_get_def Let_def
           split: if_splits list.splits)

lemma windows_parse_line_inv:
  "raw \<in> set ls \<Longrightarrow> windows_inv ls st \<Longrightarrow> windows_inv ls (windows_parse_line st raw)"
  by (cases st)
     (auto simp: windows_inv_def plain_keys_def state_from_def windows_parse_line_def Let_def
        update_conv' list_ex_iff is_state_line_def state_text_def split: option.splits)

lemma windows_fold_inv:
  "set xs \<subseteq> set ls \<Longrightarrow> windows_inv ls st \<Longrightarrow> windows_inv ls (foldl windows_parse_line st xs)"
  by (induction xs arbitrary: st) (auto simp: windows_parse_line_inv)

lemma windows_parse_inv:
  assumes "svc \<in> set (windows_parse out)"
  shows "plain_keys svc \<and> state_from (split_on (CHR 0x0A) out) svc"
proof -
  obtain services cur
    where f: "foldl windows_parse_line ([], []) (split_on (CHR 0x0A) out) = (services, cur)"
    by (cases "foldl windows_parse_line ([], []) (split_on (CHR 0x0A) out)")
  have "windows_inv (split_on (CHR 0x0A) out)
          (foldl windows_parse_line ([], []) (split_on (CHR 0x0A) out))"
    by (rule windows_fold_inv) (simp_all add: windows_inv_def plain_keys_def state_from_def)
  with f have inv:
    "list_all (\<lambda>d. plain_keys d \<and> state_from (split_on (CHR 0x0A) out) d) services"
    "plain_keys cur \<and> state_from (split_on (CHR 0x0A) out) cur"
    by (simp_all add: windows_inv_def)
  from assms f have "svc \<in> set services \<or> svc = cur"
    by (auto simp: windows_parse_def split: if_splits)
  with inv show ?thesis
    by (auto simp: list_all_iff)
qed

lemma windows_row_state:
  assumes "svc \<in> set (windows_parse out)" and "table_entry svc = Some row"
  shows "State row = PyStr ''Unknown''
         \<or> list_ex (\<lambda>raw. startswith (py_strip raw) ''STATE:''
                      \<and> State row = PyStr (py_strip (after_first (CHR '':'') (py_strip raw))))
              (split_on (CHR 0x0A) out)"
  using windows_parse_inv [OF assms(1)] assms(2)
  by (auto simp: table_entry_def plain_keys_def state_from_def has_key_def dict_get_def
        is_state_line_def state_text_def split: if_splits option.splits)

lemma windows_row_unknown:
  assumes "svc \<in> set (windows_parse out)" and "table_entry svc = Some row"
    and "\<not> list_ex (\<lambda>raw. startswith (py_strip raw) ''STATE:'') (split_on (CHR 0x0A) out)"
  shows "State row = PyStr ''Unknown''"
  using windows_row_state [OF assms(1,2)] assms(3)
  by (auto simp: list_ex_iff)

lemma state_prefix:
  assumes "startswith s ''STATE:''"
  shows "\<not> startswith s ''SERVICE_NAME:'' \<and> \<not> startswith s ''DISPLAY_NAME:''
         \<and> \<not> startswith s ''TYPE:''"
proof (cases s)
  case Nil
  with assms show ?thesis by (simp add: startswith_def)
next
  case (Cons a t)
  show ?thesis
  proof (cases t)
    case Nil
    with Cons assms show ?thesis by (simp add: startswith_def)
  next
    case (Cons b u)
    with \<open>s = a # t\<close> assms show ?thesis by (auto simp: startswith_def)
  qed
qed

lemma state_line_sets_state:
  assumes "startswith (py_strip raw) ''STATE:''"
  shows "windows_parse_line (services, cur) raw
     = (services, AList.update ''state''
          (PyStr (py_strip (after_first (CHR '':'') (py_strip raw)))) cur)"
  using assms state_prefix [OF assms]
  by (simp add: windows_parse_line_def Let_def)

text \<open>
  C6 (amended). The state of a listed service is not mapped onto a closed set. A row made
  from a line of the systemd listing carries the third whitespace-separated field of
  that line unchanged (\<open>active\<close>, \<open>inactive\<close>, \<open>failed\<close>, ...). In the Windows parser
  a line that starts with \<open>STATE:\<close> once stripped stores the stripped text after its
  first colon as the state of the current dictionary; the state of a Windows row is
  \<open>Unknown\<close> or the text so stored from such a line of the output, and it is
  \<open>Unknown\<close> when no line of the output starts with \<open>STATE:\<close> (as in the padded
  layout, where blanks stand before the colon). Only a row made from a line of the launchd
  listing has a state in a closed set: \<open>Running\<close> when its pid is a non-zero integer,
  \<open>Stopped\<close> otherwise.
\<close>

theorem state_is_raw:
  "(systemd_parse_line line = Some svc \<longrightarrow>
      (\<exists>row. table_entry svc = Some row \<and> State row = PyStr (py_split line ! 2)))
   \<and> (startswith (py_strip raw) ''STATE:'' \<longrightarrow>
      windows_parse_line (services, cur) raw
        = (services, AList.update ''state''
             (PyStr (py_strip (after_first (CHR '':'') (py_strip raw)))) cur))
   \<and> (wsvc \<in> set (windows_parse out) \<and> table_entry wsvc = Some wrow \<longrightarrow>
      State wrow = PyStr ''Unknown''
      \<or> list_ex (\<lambda>raw. startswith (py_strip raw) ''STATE:''
                   \<and> State wrow = PyStr (py_strip (after_first (CHR '':'') (py_strip raw))))
           (split_on (CHR 0x0A) out))
   \<and> (wsvc \<in> set (windows_parse out) \<and> table_entry wsvc = Some wrow
       \<and> \<not> list_ex (\<lambda>raw. startswith (py_strip raw) ''STATE:'') (split_on (CHR 0x0A) out) \<longrightarrow>
      State wrow = PyStr ''Unknown'')
   \<and> (launchd_parse_line lline = Some lsvc \<longrightarrow>
      (\<exists>row. table_entry lsvc = Some row
         \<and> State row = (if truthy (dict_get lsvc ''pid'' PyNone)
                        then PyStr ''Running'' else PyStr ''Stopped'')))"
  using systemd_row_state [of line svc] launchd_row_state [of lline lsvc]
    windows_row_state [of wsvc out wrow] windows_row_unknown [of wsvc out wrow]
    state_line_sets_state [of raw services cur]
  by blast

lemma sshd_line:
  "systemd_parse_line ''sshd.service loaded active running OpenSSH server daemon''
     = Some [(''name'', PyStr ''sshd.service''), (''load_state'', PyStr ''loaded''),
             (''active_state'', PyStr ''active''), (''sub_state'', PyStr ''running''),
             (''description'', PyStr ''OpenSSH server daemon'')]"
  by code_simp

lemma sshd_split:
  "py_split ''sshd.service loaded active running OpenSSH server daemon'' ! 2 = ''active''"
  by code_simp

lemma launchd_line:
  "launchd_parse_line (''123'' @ [CHR 0x09] @ ''0'' @ [CHR 0x09] @ ''com.example.job'')
     = Some [(''label'', PyStr ''com.example.job''), (''pid'', PyInt 123),
             (''status'', PyStr ''0''), (''last_exit_code'', PyStr ''123'')]"
  by code_simp

text \<open>
  A block in the padded layout, where the colon of the state line stands after blanks,
  and a block whose state line starts with \<open>STATE:\<close>.
\<close>

lemma spooler_padded:
  "windows_parse (''SERVICE_NAME: Spooler'' @ [CHR 0x0A]
      @ ''DISPLAY_NAME: Print Spooler'' @ [CHR 0x0A]
      @ ''        TYPE               : 110  WIN32_OWN_PROCESS'' @ [CHR 0x0A]
      @ ''        STATE              : 4  RUNNING'')
   = [[(''name'', PyStr ''Spooler''), (''display_name'', PyStr ''Print Spooler'')]]"
  by code_simp

lemma spooler_padded_lines:
  "list_ex (\<lambda>raw. startswith (py_strip raw) ''STATE:'')
     (split_on (CHR 0x0A) (''SERVICE_NAME: Spooler'' @ [CHR 0x0A]
      @ ''DISPLAY_NAME: Print Spooler'' @ [CHR 0x0A]
      @ ''        TYPE               : 110  WIN32_OWN_PROCESS'' @ [CHR 0x0A]
      @ ''        STATE              : 4  RUNNING'')) = False"
  by code_simp

lemma spooler_compact:
  "windows_parse (''SERVICE_NAME: Spooler'' @ [CHR 0x0A] @ ''STATE: 4  RUNNING'')
   = [[(''name'', PyStr ''Spooler''), (''state'', PyStr ''4  RUNNING'')]]"
  by code_simp

theorem state_is_raw_witness:
  "systemd_parse_line ''sshd.service loaded active running OpenSSH server daemon''
     = Some [(''name'', PyStr ''sshd.service''), (''load_state'', PyStr ''loaded''),
             (''active_state'', PyStr ''active''), (''sub_state'', PyStr ''running''),
             (''description'', PyStr ''OpenSSH server daemon'')]
   \<and> (\<exists>row. table_entry [(''name'', PyStr ''sshd.service''), (''load_state'', PyStr ''loaded''),
             (''active_state'', PyStr ''active''), (''sub_state'', PyStr ''running''),
             (''description'', PyStr ''OpenSSH server daemon'')] = Some row
          \<and> State row = PyStr ''active'')
   \<and> launchd_parse_line (''123'' @ [CHR 0x09] @ ''0'' @ [CHR 0x09] @ ''com.example.job'')
     = Some [(''label'', PyStr ''com.example.job''), (''pid'', PyInt 123),
             (''status'', PyStr ''0''), (''last_exit_code'', PyStr ''123'')]
   \<and> (\<exists>row. table_entry [(''label'', PyStr ''com.example.job''), (''pid'', PyInt 123),
             (''status'', PyStr ''0''), (''last_exit_code'', PyStr ''123'')] = Some row
          \<and> State row = PyStr ''Running'')
   \<and> windows_parse (''SERVICE_NAME: Spooler'' @ [CHR 0x0A]
        @ ''DISPLAY_NAME: Print Spooler'' @ [CHR 0x0A]
        @ ''        TYPE               : 110  WIN32_OWN_PROCESS'' @ [CHR 0x0A]
        @ ''        STATE              : 4  RUNNING'')
     = [[(''name'', PyStr ''Spooler''), (''display_name'', PyStr ''Print Spooler'')]]
   \<and> \<not> list_ex (\<lambda>raw. startswith (py_strip raw) ''STATE:'')
        (split_on (CHR 0x0A) (''SERVICE_NAME: Spooler'' @ [CHR 0x0A]
           @ ''DISPLAY_NAME: Print Spooler'' @ [CHR 0x0A]
           @ ''        TYPE               : 110  WIN32_OWN_PROCESS'' @ [CHR 0x0A]
           @ ''        STATE              : 4  RUNNING''))
   \<and> table_entry [(''name'', PyStr ''Spooler''), (''display_name'', PyStr ''Print Spooler'')]
     = Some \<lparr>Name = PyStr ''Spooler'', Display_Name = PyStr ''Print Spooler'',
             State = PyStr ''Unknown'', Type = PyStr ''Service''\<rparr>
   \<and> windows_parse (''SERVICE_NAME: Spooler'' @ [CHR 0x0A] @ ''STATE: 4  RUNNING'')
     = [[(''name'', PyStr ''Spooler''), (''state'', PyStr ''4  RUNNING'')]]
   \<and> table_entry [(''name'', PyStr ''Spooler''), (''state'', PyStr ''4  RUNNING'')]
     = Some \<lparr>Name = PyStr ''Spooler'', Display_Name = PyStr [],
             State = PyStr ''4  RUNNING'', Type = PyStr ''Service''\<rparr>"
  using state_is_raw [where line = "''sshd.service loaded active running OpenSSH server daemon''"
      and svc = "[(''name'', PyStr ''sshd.service''), (''load_state'', PyStr ''loaded''),
             (''active_state'', PyStr ''active''), (''sub_state'', PyStr ''running''),
             (''description'', PyStr ''OpenSSH server daemon'')]"
      and lline = "''123'' @ [CHR 0x09] @ ''0'' @ [CHR 0x09] @ ''com.example.job''"
      and lsvc = "[(''label'', PyStr ''com.example.job''), (''pid'', PyInt 123),
             (''status'', PyStr ''0''), (''last_exit_code'', PyStr ''123'')]"
      and out = "''SERVICE_NAME: Spooler'' @ [CHR 0x0A]
        @ ''DISPLAY_NAME: Print Spooler'' @ [CHR 0x0A]
        @ ''        TYPE               : 110  WIN32_OWN_PROCESS'' @ [CHR 0x0A]
        @ ''        STATE              : 4  RUNNING''"
      and wsvc = "[(''name'', PyStr ''Spooler''), (''display_name'', PyStr ''Print Spooler'')]"
      and wrow = "\<lparr>Name = PyStr ''Spooler'', Display_Name = PyStr ''Print Spooler'',
             State = PyStr ''Unknown'', Type = PyStr ''Service''\<rparr>"
      and raw = "''STATE: 4  RUNNING''" and services = "[]" and cur = "[]"]
    state_is_raw [where out = "''SERVICE_NAME: Spooler'' @ [CHR 0x0A] @ ''STATE: 4  RUNNING''"
      and wsvc = "[(''name'', PyStr ''Spooler''), (''state'', PyStr ''4  RUNNING'')]"
      and wrow = "\<lparr>Name = PyStr ''Spooler'', Display_Name = PyStr [],
             State = PyStr ''4  RUNNING'', Type = PyStr ''Service''\<rparr>"]
    sshd_line sshd_split launchd_line
    spooler_padded [simplified] spooler_padded_lines [simplified] spooler_compact [simplified]
  by (simp add: table_entry_def has_key_def dict_get_def)

lemma sshd_listing:
  "systemd_parse (''UNIT LOAD ACTIVE SUB DESCRIPTION'' @ [CHR 0x0A]
      @ ''sshd.service loaded active running OpenSSH server daemon'')
   = [[(''name'', PyStr ''sshd.service''), (''load_state'', PyStr ''loaded''),
       (''active_state'', PyStr ''active''), (''sub_state'', PyStr ''running''),
       (''description'', PyStr ''OpenSSH server daemon'')]]"
  by code_simp

text \<open>
  C6 (as stated: the state of every listed service is one of Running, Stopped, Unknown).
  On Linux, a systemd listing with the unit \<open>sshd.service loaded active running\<close>
  prints a table whose row has the state \<open>active\<close>.
\<close>

theorem raw_state_counterexample:
  "list_services
     \<lparr>platform_system = ''Linux'', os_name = ''posix'', os_uname = Some ''Linux'',
      import_error = (\<lambda>b. None),
      subprocess_run = (\<lambda>argv. if argv = [''systemctl'', ''--version''] then Completed 0 [] []
         else Completed 0 (''UNIT LOAD ACTIVE SUB DESCRIPTION'' @ [CHR 0x0A]
                @ ''sshd.service loaded active running OpenSSH server daemon'') []),
      path_exists = (\<lambda>p. False), is_admin = False\<rparr>
   = [Instantiate Systemd, Run [''systemctl'', ''--version''],
      Run [''systemctl'', ''list-units'', ''--type=service'', ''--all''],
      Print_table [\<lparr>Name = PyStr ''sshd.service'', Display_Name = PyStr ''OpenSSH server daemon'',
                    State = PyStr ''active'', Type = PyStr ''Service''\<rparr>]]
   \<and> PyStr ''active'' \<notin> {PyStr ''Running'', PyStr ''Stopped'', PyStr ''Unknown''}"
  by (simp add: list_services_def get_service_backend_def probe_backend_def lower_Linux
        systemd_is_available_def systemd_list_services_def run_list_def
        sshd_listing [simplified] table_data_def table_entry_def has_key_def dict_get_def
        List.map_filter_def)

section \<open>Properties of the multi-process loop\<close>












end
